theory Spec2Isabelle
  imports Main
begin

section \<open>The filter pipeline of pongo2 (filters.go)\<close>

text \<open>
  A shallow embedding of \<^verbatim>\<open>filters.go\<close>: the process-wide filter registry, the
  invoker \<^verbatim>\<open>ApplyFilter\<close>, the node \<^verbatim>\<open>filterCall\<close> with its
  \<^verbatim>\<open>Execute\<close> method and the grammar rule \<^verbatim>\<open>parseFilter\<close>.

  Conventions of the embedding.
  \<^item> A Go pointer that the code compares with \<^verbatim>\<open>nil\<close> is an \<open>option\<close>:
    \<^verbatim>\<open>*Value\<close> is \<open>'a Value option\<close>, \<^verbatim>\<open>*Error\<close> is \<open>'t Error option\<close>.
  \<^item> A Go \<^verbatim>\<open>error\<close> made by \<^verbatim>\<open>fmt.Errorf\<close> is its message; a nil
    \<^verbatim>\<open>error\<close> is \<open>None\<close>.
  \<^item> A Go function that returns \<^verbatim>\<open>(x, err)\<close> returns the pair, both components
    as the code leaves them.
  \<^item> The global \<^verbatim>\<open>filters\<close> (a \<^verbatim>\<open>*sync.Map\<close>) is a map from names to
    filter functions, passed to each function that loads from it and returned by each
    function whose effect on it a property speaks about. Calls are modelled one at a
    time: the interleaving of concurrent callers is outside the embedding.
  \<^item> A filter function is a total function of its three arguments; it does not write
    the registry. A nil function value is not a filter function of the model.
\<close>

subsection \<open>Values, tokens and errors\<close>

text \<open>
  Modelled from the spec: the declaration of \<^verbatim>\<open>Value\<close> and of \<^verbatim>\<open>AsValue\<close>
  is missing from the sources. The value representation offers a canonical
  "no parameter" sentinel constructible from an absent (nil) input: \<open>AsValue None\<close>
  is \<^verbatim>\<open>AsValue(nil)\<close>, and \<open>AsValue (Some x)\<close> wraps the Go value \<open>x\<close>.
\<close>

datatype 'a Value = AsValue "'a option"

text \<open>The message of a Go \<^verbatim>\<open>error\<close> value.\<close>

type_synonym error = string

text \<open>
  Modelled from the spec: the declaration of \<^verbatim>\<open>TokenType\<close> is missing.
  \<^verbatim>\<open>filters.go\<close> names the kinds \<^verbatim>\<open>TokenIdentifier\<close> and
  \<^verbatim>\<open>TokenSymbol\<close>; every other kind of the lexer is a \<open>TokenOther\<close>.
\<close>

datatype TokenType = TokenIdentifier | TokenSymbol | TokenOther nat

text \<open>
  Modelled from the spec: the declaration of \<^verbatim>\<open>Token\<close> is missing.
  \<^verbatim>\<open>filters.go\<close> reads the field \<^verbatim>\<open>Val\<close> and matches on the type and
  the literal; the token is a source location as well, its line and column.
\<close>

record Token =
  Typ :: TokenType
  Val :: string
  Line :: nat
  Col :: nat

text \<open>
  Modelled from the spec: the declaration of \<^verbatim>\<open>Error\<close> is missing.
  \<^verbatim>\<open>ApplyFilter\<close> sets its fields \<^verbatim>\<open>Sender\<close> and \<^verbatim>\<open>OrigError\<close>
  and leaves every other field at its zero value. The error type carries a sender tag,
  an underlying cause, and a source location that is either absent or attached: the
  owning template's identity (of type \<open>'t\<close>) and a token.
\<close>

record 't Error =
  Sender :: string
  OrigError :: "error option"
  Location :: "('t \<times> Token) option"

text \<open>
  Modelled from the spec: the method \<^verbatim>\<open>updateFromTokenIfNeeded\<close> of
  \<^verbatim>\<open>Error\<close> is missing. The error type supports "attach source location if not
  already attached": an error that carries no source location yet gets the given
  template identity and token; an error that carries one is returned as it is.
\<close>

definition updateFromTokenIfNeeded :: "'t Error \<Rightarrow> 't \<Rightarrow> Token \<Rightarrow> 't Error" where
  "updateFromTokenIfNeeded e tpl t =
     (case Location e of
        None \<Rightarrow> e\<lparr>Location := Some (tpl, t)\<rparr>
      | Some l \<Rightarrow> e)"

subsection \<open>The registry\<close>

text \<open>
  \<^verbatim>\<open>type FilterFunction func(in *Value, param *Value, bind map[string]any) (out *Value, err *Error)\<close>
\<close>

type_synonym ('a, 't) FilterFunction =
  "'a Value option \<Rightarrow> 'a Value option \<Rightarrow> (string \<rightharpoonup> 'a) \<Rightarrow> 'a Value option \<times> 't Error option"

text \<open>
  \<^verbatim>\<open>var filters *sync.Map\<close>, used through \<^verbatim>\<open>Load\<close> (\<open>filters name\<close>),
  \<^verbatim>\<open>Store\<close> and \<^verbatim>\<open>Swap\<close> (\<open>filters(name \<mapsto> fn)\<close>; the value
  \<^verbatim>\<open>Swap\<close> returns is dropped by the caller) and \<^verbatim>\<open>Delete\<close>
  (\<open>filters(name := None)\<close>). \<^verbatim>\<open>init\<close> makes it empty.
\<close>

type_synonym ('a, 't) registry = "string \<rightharpoonup> ('a, 't) FilterFunction"

definition init :: "('a, 't) registry" where
  "init = Map.empty"

definition FilterExists :: "('a, 't) registry \<Rightarrow> string \<Rightarrow> bool" where
  "FilterExists filters name = (case filters name of None \<Rightarrow> False | Some fn \<Rightarrow> True)"

definition RegisterFilter ::
  "string \<Rightarrow> ('a, 't) FilterFunction \<Rightarrow> ('a, 't) registry \<Rightarrow> error option \<times> ('a, 't) registry"
where
  "RegisterFilter name fn filters =
     (if FilterExists filters name
      then (Some (''filter with name '' @ [CHR 0x27] @ name @ [CHR 0x27] @ '' is already registered''),
            filters)
      else (None, filters(name \<mapsto> fn)))"

definition ReplaceFilter ::
  "string \<Rightarrow> ('a, 't) FilterFunction \<Rightarrow> ('a, 't) registry \<Rightarrow> error option \<times> ('a, 't) registry"
where
  "ReplaceFilter name fn filters =
     (if \<not> FilterExists filters name
      then (Some (''filter with name '' @ [CHR 0x27] @ name @ [CHR 0x27]
                  @ '' does not exist (therefore cannot be overridden)''),
            filters)
      else (None, filters(name \<mapsto> fn)))"

definition OverrideFilter ::
  "string \<Rightarrow> ('a, 't) FilterFunction \<Rightarrow> ('a, 't) registry \<Rightarrow> error option \<times> ('a, 't) registry"
where
  "OverrideFilter name fn filters = (None, (filters(name := None))(name \<mapsto> fn))"

subsection \<open>The invoker\<close>

text \<open>
  \<^verbatim>\<open>ApplyFilter\<close> only loads from the registry. The registry is returned next to
  the result, as the call leaves it, so that "the registry is unchanged" is a
  statement about the function.
\<close>

definition ApplyFilter ::
  "string \<Rightarrow> 'a Value option \<Rightarrow> 'a Value option \<Rightarrow> (string \<rightharpoonup> 'a) \<Rightarrow> ('a, 't) registry
     \<Rightarrow> ('a Value option \<times> 't Error option) \<times> ('a, 't) registry"
where
  "ApplyFilter name value param bind filters =
     (case filters name of
        None \<Rightarrow>
          ((None,
            Some \<lparr>Sender = ''applyfilter'',
                  OrigError = Some (''filter with name '' @ [CHR 0x27] @ name @ [CHR 0x27] @ '' not found''),
                  Location = None\<rparr>),
           filters)
      | Some fn \<Rightarrow>
          (fn value (if param = None then Some (AsValue None) else param) bind, filters))"

subsection \<open>The filter-call node\<close>

text \<open>
  Modelled from the spec: the declaration of \<^verbatim>\<open>ExecutionContext\<close> is missing.
  \<^verbatim>\<open>filters.go\<close> reads its fields \<^verbatim>\<open>template\<close> and \<^verbatim>\<open>Public\<close>: the
  render context exposes the owning template's identity and a read-only mapping of
  the publicly bound variables, which is passed through to the filter functions.
\<close>

record ('a, 't) ExecutionContext =
  template :: 't
  Public :: "string \<rightharpoonup> 'a"

text \<open>
  Modelled from the spec: the declaration of the interface \<^verbatim>\<open>IEvaluator\<close> is
  missing. \<^verbatim>\<open>filters.go\<close> calls its method \<^verbatim>\<open>Evaluate(ctx)\<close> and reads a value
  and an error from it: an argument expression is evaluated against the current render
  state, yielding a value or an error. An evaluator is that method.
\<close>

type_synonym ('a, 't) IEvaluator =
  "('a, 't) ExecutionContext \<Rightarrow> 'a Value option \<times> 't Error option"

record ('a, 't) filterCall =
  token :: Token
  name :: string
  parameter :: "('a, 't) IEvaluator option"
  filterFunc :: "('a, 't) FilterFunction"

definition Execute ::
  "('a, 't) filterCall \<Rightarrow> 'a Value option \<Rightarrow> ('a, 't) ExecutionContext
     \<Rightarrow> 'a Value option \<times> 't Error option"
where
  "Execute fc v ctx =
     (case (case parameter fc of
              Some ev \<Rightarrow> ev ctx
            | None \<Rightarrow> (Some (AsValue None), None)) of
        (param, Some err) \<Rightarrow> (None, Some err)
      | (param, None) \<Rightarrow>
          (case filterFunc fc v param (Public ctx) of
             (filteredValue, Some err) \<Rightarrow>
               (None, Some (updateFromTokenIfNeeded err (template ctx) (token fc)))
           | (filteredValue, None) \<Rightarrow> (filteredValue, None)))"

subsection \<open>The parser\<close>

text \<open>
  Modelled from the spec: the declaration of \<^verbatim>\<open>Parser\<close> and its methods
  \<^verbatim>\<open>MatchType\<close>, \<^verbatim>\<open>Match\<close> and \<^verbatim>\<open>Peek\<close> are missing. The token
  stream is the list of tokens and the current position; it exposes "match token of
  type", "match token of type+literal" (both consume the token they match) and "peek
  token of type+literal" (which consumes nothing). Each returns the token, or nil.
\<close>

record Parser =
  tokens :: "Token list"
  idx :: nat

text \<open>
  Modelled from the spec: the token at the current position, nil at the end of the
  tokens.
\<close>

definition Current :: "Parser \<Rightarrow> Token option" where
  "Current p = (if idx p < length (tokens p) then Some (tokens p ! idx p) else None)"

text \<open>
  Modelled from the spec: "peek token of type", the current token when it has the
  given type, and nil otherwise.
\<close>

definition PeekType :: "Parser \<Rightarrow> TokenType \<Rightarrow> Token option" where
  "PeekType p typ =
     (case Current p of
        None \<Rightarrow> None
      | Some t \<Rightarrow> if Typ t = typ then Some t else None)"

text \<open>
  Modelled from the spec: "peek token of type+literal", the current token when it has
  the given type and literal, and nil otherwise.
\<close>

definition Peek :: "Parser \<Rightarrow> TokenType \<Rightarrow> string \<Rightarrow> Token option" where
  "Peek p typ val =
     (case Current p of
        None \<Rightarrow> None
      | Some t \<Rightarrow> if Typ t = typ \<and> Val t = val then Some t else None)"

text \<open>
  Modelled from the spec: "match token of type", which consumes the token it returns.
\<close>

definition MatchType :: "Parser \<Rightarrow> TokenType \<Rightarrow> Token option \<times> Parser" where
  "MatchType p typ =
     (case PeekType p typ of
        None \<Rightarrow> (None, p)
      | Some t \<Rightarrow> (Some t, p\<lparr>idx := idx p + 1\<rparr>))"

text \<open>
  Modelled from the spec: "match token of type+literal", which consumes the token it
  returns.
\<close>

definition Match :: "Parser \<Rightarrow> TokenType \<Rightarrow> string \<Rightarrow> Token option \<times> Parser" where
  "Match p typ val =
     (case Peek p typ val of
        None \<Rightarrow> (None, p)
      | Some t \<Rightarrow> (Some t, p\<lparr>idx := idx p + 1\<rparr>))"

text \<open>
  \<^verbatim>\<open>parseFilter\<close> calls two more methods of the parser that are not in the
  sources, and takes them as parameters:
  \<^item> \<open>perror p msg tok\<close> is \<^verbatim>\<open>p.Error(msg, tok)\<close>, the location-carrying error
    constructor, called in the parser state \<open>p\<close> with a token or with nil;
  \<^item> \<open>parseVariableOrLiteral filters p\<close> is \<^verbatim>\<open>p.parseVariableOrLiteral()\<close>, the
    argument expression of the surrounding grammar; it returns its pair and the parser
    state it leaves, and may load from the registry.
  The result is the node or the error (the code returns nil for the other), and the
  parser state the call leaves.
\<close>

definition parseFilter ::
  "(Parser \<Rightarrow> string \<Rightarrow> Token option \<Rightarrow> 't Error)
     \<Rightarrow> (('a, 't) registry \<Rightarrow> Parser \<Rightarrow> (('a, 't) IEvaluator option \<times> 't Error option) \<times> Parser)
     \<Rightarrow> ('a, 't) registry \<Rightarrow> Parser
     \<Rightarrow> ('t Error + ('a, 't) filterCall) \<times> Parser"
where
  "parseFilter perror parseVariableOrLiteral filters p =
     (case MatchType p TokenIdentifier of
        (None, p1) \<Rightarrow> (Inl (perror p1 ''Filter name must be an identifier.'' None), p1)
      | (Some identToken, p1) \<Rightarrow>
          (case filters (Val identToken) of
             None \<Rightarrow>
               (Inl (perror p1 (''Filter '' @ [CHR 0x27] @ Val identToken @ [CHR 0x27] @ '' does not exist.'')
                       (Some identToken)),
                p1)
           | Some filterFn \<Rightarrow>
               (let filter = \<lparr>token = identToken, name = Val identToken,
                              parameter = None, filterFunc = filterFn\<rparr>
                in case Match p1 TokenSymbol '':'' of
                     (None, p2) \<Rightarrow> (Inr filter, p2)
                   | (Some colon, p2) \<Rightarrow>
                       (case Peek p2 TokenSymbol ''}}'' of
                          Some t \<Rightarrow> (Inl (perror p2 ''Filter parameter required after ':'.'' None), p2)
                        | None \<Rightarrow>
                            (case parseVariableOrLiteral filters p2 of
                               ((v, Some err), p3) \<Rightarrow> (Inl err, p3)
                             | ((v, None), p3) \<Rightarrow> (Inr (filter\<lparr>parameter := v\<rparr>), p3))))))"

subsection \<open>Concrete filters\<close>

text \<open>
  The two filters of the testable properties, on integer values with templates named
  by strings: \<open>double\<close> multiplies a number by two, \<open>neg\<close> negates it; on anything
  else each fails with an error that carries no source location. They are the concrete
  inputs at which the theorems below are instantiated.
\<close>

definition double :: "(int, string) FilterFunction" where
  "double v param bind =
     (case v of
        Some (AsValue (Some x)) \<Rightarrow> (Some (AsValue (Some (2 * x))), None)
      | _ \<Rightarrow> (None, Some \<lparr>Sender = ''filter:double'', OrigError = Some ''not a number'',
                          Location = None\<rparr>))"

definition neg :: "(int, string) FilterFunction" where
  "neg v param bind =
     (case v of
        Some (AsValue (Some x)) \<Rightarrow> (Some (AsValue (Some (- x))), None)
      | _ \<Rightarrow> (None, Some \<lparr>Sender = ''filter:neg'', OrigError = Some ''not a number'',
                          Location = None\<rparr>))"

text \<open>
  A test filter that asserts the identity of the sentinel: it succeeds on its input if
  and only if its parameter is \<open>AsValue None\<close>.
\<close>

definition wantsSentinel :: "(int, string) FilterFunction" where
  "wantsSentinel v param bind =
     (if param = Some (AsValue None) then (v, None)
      else (None, Some \<lparr>Sender = ''filter:wantsSentinel'', OrigError = Some ''parameter given'',
                         Location = None\<rparr>))"

text \<open>
  A filter that uses its parameter: \<open>add\<close> adds the parameter to its input.
\<close>

definition add :: "(int, string) FilterFunction" where
  "add v param bind =
     (case (v, param) of
        (Some (AsValue (Some x)), Some (AsValue (Some y))) \<Rightarrow> (Some (AsValue (Some (x + y))), None)
      | _ \<Rightarrow> (None, Some \<lparr>Sender = ''filter:add'', OrigError = Some ''not a number'', Location = None\<rparr>))"

text \<open>
  Tokens of the first line of a template, by kind, literal and column.
\<close>

definition ident :: "string \<Rightarrow> nat \<Rightarrow> Token" where
  "ident s c = \<lparr>Typ = TokenIdentifier, Val = s, Line = 1, Col = c\<rparr>"

definition symbol :: "string \<Rightarrow> nat \<Rightarrow> Token" where
  "symbol s c = \<lparr>Typ = TokenSymbol, Val = s, Line = 1, Col = c\<rparr>"

text \<open>
  Concrete parser methods. \<open>perror0\<close> builds an error of the template
  \<open>''page.tpl''\<close> whose location is the token it is given, and no location when it
  is given nil. \<open>parseVariable\<close> accepts one identifier as a variable reference: its
  evaluator looks the variable up in the public context of the render and fails when
  it is unbound.
\<close>

definition perror0 :: "Parser \<Rightarrow> string \<Rightarrow> Token option \<Rightarrow> string Error" where
  "perror0 p msg tok =
     \<lparr>Sender = ''parser'', OrigError = Some msg,
      Location = map_option (\<lambda>t. (''page.tpl'', t)) tok\<rparr>"

definition parseVariable ::
  "(int, string) registry \<Rightarrow> Parser \<Rightarrow> ((int, string) IEvaluator option \<times> string Error option) \<times> Parser"
where
  "parseVariable filters p =
     (case PeekType p TokenIdentifier of
        None \<Rightarrow> ((None, Some (perror0 p ''Expected an identifier.'' (Current p))), p)
      | Some t \<Rightarrow>
          ((Some (\<lambda>ctx. case Public ctx (Val t) of
                           None \<Rightarrow> (None, Some \<lparr>Sender = ''variable'', OrigError = Some ''unknown variable'',
                                                Location = None\<rparr>)
                         | Some x \<Rightarrow> (Some (AsValue (Some x)), None)),
            None),
           p\<lparr>idx := idx p + 1\<rparr>))"

section \<open>Properties of the registry and the invoker\<close>

lemma FilterExists_iff: "FilterExists filters n \<longleftrightarrow> filters n \<noteq> None"
  by (simp add: FilterExists_def split: option.splits)

text \<open>
  C1. Calling \<open>RegisterFilter n f\<close> and then \<open>RegisterFilter n g\<close>: the second call
  returns the "already registered" error (DuplicateRegistration) and leaves the
  registry as the first call left it, so \<open>ApplyFilter n\<close> does afterwards what it did
  before the second call. When \<open>n\<close> is not registered before the first call, the first
  call returns no error and stores \<open>f\<close> under \<open>n\<close>, the entry for \<open>n\<close> after the
  second call is \<open>f\<close>, and \<open>ApplyFilter n\<close> still invokes \<open>f\<close>. The first call
  returns no error only then: when \<open>n\<close> is registered before it, with a function
  \<open>h\<close>, the first call fails as well, the registry stays as it was, and
  \<open>ApplyFilter n\<close> invokes \<open>h\<close>.
\<close>

theorem RegisterFilter_twice:
  assumes "RegisterFilter n f filters = (e1, filters1)"
    and "RegisterFilter n g filters1 = (e2, filters2)"
  shows "e2 = Some (''filter with name '' @ [CHR 0x27] @ n @ [CHR 0x27] @ '' is already registered'')
       \<and> filters2 = filters1
       \<and> ApplyFilter n v p b filters2 = ApplyFilter n v p b filters1
       \<and> (\<not> FilterExists filters n \<longrightarrow>
            e1 = None
          \<and> filters1 = filters(n \<mapsto> f)
          \<and> filters2 n = Some f
          \<and> (\<forall>m. m \<noteq> n \<longrightarrow> filters2 m = filters m)
          \<and> ApplyFilter n v p b filters2
              = (f v (if p = None then Some (AsValue None) else p) b, filters(n \<mapsto> f)))
       \<and> (e1 = None \<longrightarrow>
            \<not> FilterExists filters n
          \<and> filters2 n = Some f
          \<and> ApplyFilter n v p b filters2
              = (f v (if p = None then Some (AsValue None) else p) b, filters2))
       \<and> (\<forall>h. filters n = Some h \<longrightarrow>
            e1 = Some (''filter with name '' @ [CHR 0x27] @ n @ [CHR 0x27] @ '' is already registered'')
          \<and> filters2 = filters
          \<and> ApplyFilter n v p b filters2
              = (h v (if p = None then Some (AsValue None) else p) b, filters))"
proof (cases "filters n")
  case None
  then have fresh: "\<not> FilterExists filters n"
    by (simp add: FilterExists_iff)
  with assms(1) have first: "e1 = None" "filters1 = filters(n \<mapsto> f)"
    by (simp_all add: RegisterFilter_def)
  then have "FilterExists filters1 n"
    by (simp add: FilterExists_iff)
  with assms(2)
  have second: "e2 = Some (''filter with name '' @ [CHR 0x27] @ n @ [CHR 0x27] @ '' is already registered'')"
    "filters2 = filters1"
    by (simp_all add: RegisterFilter_def)
  have app: "ApplyFilter n v p b filters1
               = (f v (if p = None then Some (AsValue None) else p) b, filters(n \<mapsto> f))"
    using first by (simp add: ApplyFilter_def)
  show ?thesis
    using None fresh first second app by simp
next
  case (Some h)
  then have old: "FilterExists filters n"
    by (simp add: FilterExists_iff)
  with assms(1)
  have first: "e1 = Some (''filter with name '' @ [CHR 0x27] @ n @ [CHR 0x27] @ '' is already registered'')"
    "filters1 = filters"
    by (simp_all add: RegisterFilter_def)
  with old assms(2)
  have second: "e2 = Some (''filter with name '' @ [CHR 0x27] @ n @ [CHR 0x27] @ '' is already registered'')"
    "filters2 = filters"
    by (simp_all add: RegisterFilter_def)
  have app: "ApplyFilter n v p b filters
               = (h v (if p = None then Some (AsValue None) else p) b, filters)"
    using Some by (simp add: ApplyFilter_def)
  show ?thesis
    using Some old first second app by simp
qed

theorem RegisterFilter_twice_witness:
  "\<not> FilterExists [''double'' \<mapsto> double] ''neg''
   \<and> RegisterFilter ''neg'' neg [''double'' \<mapsto> double]
       = (None, [''double'' \<mapsto> double, ''neg'' \<mapsto> neg])
   \<and> RegisterFilter ''neg'' add [''double'' \<mapsto> double, ''neg'' \<mapsto> neg]
       = (Some ''filter with name 'neg' is already registered'',
          [''double'' \<mapsto> double, ''neg'' \<mapsto> neg])
   \<and> ApplyFilter ''neg'' (Some (AsValue (Some 3))) None Map.empty
        [''double'' \<mapsto> double, ''neg'' \<mapsto> neg]
       = ((Some (AsValue (Some (- 3))), None), [''double'' \<mapsto> double, ''neg'' \<mapsto> neg])
   \<and> RegisterFilter ''double'' double init = (None, [''double'' \<mapsto> double])
   \<and> RegisterFilter ''double'' neg [''double'' \<mapsto> double]
       = (Some ''filter with name 'double' is already registered'', [''double'' \<mapsto> double])
   \<and> ApplyFilter ''double'' (Some (AsValue (Some 3))) None Map.empty [''double'' \<mapsto> double]
       = ((Some (AsValue (Some 6)), None), [''double'' \<mapsto> double])"
proof -
  let ?r1 = "[''double'' \<mapsto> double]"
  let ?r2 = "[''double'' \<mapsto> double, ''neg'' \<mapsto> neg]"
  have fresh: "\<not> FilterExists ?r1 ''neg''"
    by (simp add: FilterExists_def)
  have a1: "RegisterFilter ''neg'' neg ?r1 = (None, ?r2)"
    by (simp add: RegisterFilter_def FilterExists_def)
  have a2: "RegisterFilter ''neg'' add ?r2
              = (Some ''filter with name 'neg' is already registered'', ?r2)"
    by (simp add: RegisterFilter_def FilterExists_def)
  have b0: "\<not> FilterExists (init :: (int, string) registry) ''double''"
    by (simp add: FilterExists_def init_def)
  have b1: "RegisterFilter ''double'' double init = (None, ?r1)"
    by (simp add: RegisterFilter_def FilterExists_def init_def)
  have b2: "RegisterFilter ''double'' neg ?r1
              = (Some ''filter with name 'double' is already registered'', ?r1)"
    by (simp add: RegisterFilter_def FilterExists_def)
  from RegisterFilter_twice [OF a1 a2, of "Some (AsValue (Some 3))" None Map.empty] fresh
  have wa: "ApplyFilter ''neg'' (Some (AsValue (Some 3))) None Map.empty ?r2
              = (neg (Some (AsValue (Some 3))) (Some (AsValue None)) Map.empty, ?r2)"
    by simp
  from RegisterFilter_twice [OF b1 b2, of "Some (AsValue (Some 3))" None Map.empty] b0
  have wb: "ApplyFilter ''double'' (Some (AsValue (Some 3))) None Map.empty ?r1
              = (double (Some (AsValue (Some 3))) (Some (AsValue None)) Map.empty, ?r1)"
    by (simp add: init_def)
  show ?thesis
    using fresh a1 a2 b1 b2 wa wb by (simp add: neg_def double_def)
qed

text \<open>
  C2. For a name with no entry in the registry, \<open>ApplyFilter\<close> returns no value and
  the "not found" error (UnknownFilter) whose sender is \<open>''applyfilter''\<close>, with no
  source location, and leaves the registry as it was.
\<close>

theorem ApplyFilter_unknown:
  assumes "\<not> FilterExists filters n"
  shows "ApplyFilter n v p b filters
           = ((None,
               Some \<lparr>Sender = ''applyfilter'',
                     OrigError = Some (''filter with name '' @ [CHR 0x27] @ n @ [CHR 0x27] @ '' not found''),
                     Location = None\<rparr>),
              filters)"
  using assms by (simp add: ApplyFilter_def FilterExists_iff)

theorem ApplyFilter_unknown_witness:
  "\<not> FilterExists [''double'' \<mapsto> double] ''bogus''
   \<and> fst (fst (ApplyFilter ''bogus'' (Some (AsValue (Some 3))) None Map.empty [''double'' \<mapsto> double])) = None
   \<and> map_option Sender
        (snd (fst (ApplyFilter ''bogus'' (Some (AsValue (Some 3))) None Map.empty [''double'' \<mapsto> double])))
       = Some ''applyfilter''
   \<and> map_option OrigError
        (snd (fst (ApplyFilter ''bogus'' (Some (AsValue (Some 3))) None Map.empty [''double'' \<mapsto> double])))
       = Some (Some ''filter with name 'bogus' not found'')
   \<and> snd (ApplyFilter ''bogus'' (Some (AsValue (Some 3))) None Map.empty [''double'' \<mapsto> double])
       = [''double'' \<mapsto> double]"
proof -
  have h: "\<not> FilterExists [''double'' \<mapsto> double] ''bogus''"
    by (simp add: FilterExists_def)
  show ?thesis
    using ApplyFilter_unknown [OF h, of "Some (AsValue (Some 3))" None Map.empty] h
    by simp
qed

text \<open>
  C3. For a registered name, \<open>ApplyFilter\<close> with a nil parameter calls the
  registered function with the sentinel \<open>AsValue None\<close> in place of the parameter and
  returns the pair the function returns, value and error, as it is.
\<close>

theorem ApplyFilter_nil_param:
  assumes "filters n = Some fn"
  shows "ApplyFilter n v None b filters = (fn v (Some (AsValue None)) b, filters)"
  using assms by (simp add: ApplyFilter_def)

theorem ApplyFilter_nil_param_witness:
  "[''wantsSentinel'' \<mapsto> wantsSentinel] ''wantsSentinel'' = Some wantsSentinel
   \<and> ApplyFilter ''wantsSentinel'' (Some (AsValue (Some 3))) None Map.empty [''wantsSentinel'' \<mapsto> wantsSentinel]
       = ((Some (AsValue (Some 3)), None), [''wantsSentinel'' \<mapsto> wantsSentinel])
   \<and> ApplyFilter ''double'' None None Map.empty [''double'' \<mapsto> double]
       = ((None, Some \<lparr>Sender = ''filter:double'', OrigError = Some ''not a number'', Location = None\<rparr>),
          [''double'' \<mapsto> double])"
proof -
  have h1: "[''wantsSentinel'' \<mapsto> wantsSentinel] ''wantsSentinel'' = Some wantsSentinel"
    by simp
  have h2: "[''double'' \<mapsto> double] ''double'' = Some double"
    by simp
  show ?thesis
    using ApplyFilter_nil_param [of "[''wantsSentinel'' \<mapsto> wantsSentinel]" "''wantsSentinel''"
        wantsSentinel "Some (AsValue (Some 3))" Map.empty, OF h1]
      ApplyFilter_nil_param [of "[''double'' \<mapsto> double]" "''double''" double None Map.empty, OF h2]
    by (simp add: wantsSentinel_def double_def)
qed

text \<open>
  C5. \<open>ReplaceFilter\<close> for a name with no entry returns the "does not exist" error
  (MissingRegistration) and the registry unchanged, so the name still does not exist;
  for a registered name it returns no error and the registry with the entry for that
  name swapped to the new function, every other entry untouched.
\<close>

theorem ReplaceFilter_cases:
  "(\<not> FilterExists filters n \<longrightarrow>
      ReplaceFilter n g filters
        = (Some (''filter with name '' @ [CHR 0x27] @ n @ [CHR 0x27]
                 @ '' does not exist (therefore cannot be overridden)''),
           filters)
    \<and> \<not> FilterExists (snd (ReplaceFilter n g filters)) n)
 \<and> (FilterExists filters n \<longrightarrow>
      ReplaceFilter n g filters = (None, filters(n \<mapsto> g))
    \<and> snd (ReplaceFilter n g filters) n = Some g
    \<and> (\<forall>m. m \<noteq> n \<longrightarrow> snd (ReplaceFilter n g filters) m = filters m))"
  by (simp add: ReplaceFilter_def)

theorem ReplaceFilter_cases_witness:
  "\<not> FilterExists [''double'' \<mapsto> double] ''neg''
   \<and> ReplaceFilter ''neg'' neg [''double'' \<mapsto> double]
       = (Some ''filter with name 'neg' does not exist (therefore cannot be overridden)'',
          [''double'' \<mapsto> double])
   \<and> \<not> FilterExists (snd (ReplaceFilter ''neg'' neg [''double'' \<mapsto> double])) ''neg''
   \<and> FilterExists [''double'' \<mapsto> double] ''double''
   \<and> ReplaceFilter ''double'' neg [''double'' \<mapsto> double] = (None, [''double'' \<mapsto> neg])
   \<and> snd (ReplaceFilter ''double'' neg [''double'' \<mapsto> double]) ''double'' = Some neg"
proof -
  have h1: "\<not> FilterExists [''double'' \<mapsto> double] ''neg''"
    by (simp add: FilterExists_def)
  have h2: "FilterExists [''double'' \<mapsto> double] ''double''"
    by (simp add: FilterExists_def)
  show ?thesis
    using ReplaceFilter_cases [of "[''double'' \<mapsto> double]" "''neg''" neg]
      ReplaceFilter_cases [of "[''double'' \<mapsto> double]" "''double''" neg] h1 h2
    by simp
qed

text \<open>
  C6. \<open>OverrideFilter\<close> returns no error whatever the registry holds; afterwards the
  registry maps the name to the new function and \<open>ApplyFilter\<close> for that name invokes
  the new function.
\<close>

theorem OverrideFilter_always:
  "OverrideFilter n g filters = (None, filters(n \<mapsto> g))
   \<and> snd (OverrideFilter n g filters) n = Some g
   \<and> ApplyFilter n v p b (snd (OverrideFilter n g filters))
       = (g v (if p = None then Some (AsValue None) else p) b, snd (OverrideFilter n g filters))"
  by (simp add: OverrideFilter_def ApplyFilter_def)

theorem OverrideFilter_always_witness:
  "OverrideFilter ''double'' neg [''double'' \<mapsto> double] = (None, [''double'' \<mapsto> neg])
   \<and> OverrideFilter ''neg'' neg [''double'' \<mapsto> double] = (None, [''double'' \<mapsto> double, ''neg'' \<mapsto> neg])
   \<and> ApplyFilter ''double'' (Some (AsValue (Some 3))) None Map.empty
        (snd (OverrideFilter ''double'' neg [''double'' \<mapsto> double]))
       = ((Some (AsValue (Some (- 3))), None), [''double'' \<mapsto> neg])"
  using OverrideFilter_always [of "''double''" neg "[''double'' \<mapsto> double]" "Some (AsValue (Some 3))" None Map.empty]
    OverrideFilter_always [of "''neg''" neg "[''double'' \<mapsto> double]" None None Map.empty]
  by (simp add: neg_def OverrideFilter_def ApplyFilter_def)

section \<open>Properties of the parser\<close>

lemma parseFilter_Inr:
  assumes "parseFilter perror pvl filters p = (Inr fc, p')"
  shows "Current p = Some (token fc) \<and> Typ (token fc) = TokenIdentifier
       \<and> name fc = Val (token fc) \<and> filters (Val (token fc)) = Some (filterFunc fc)"
  using assms
  by (auto simp: parseFilter_def MatchType_def PeekType_def Match_def Let_def
      split: option.splits prod.splits if_splits)

text \<open>
  C7. \<open>parseFilter\<close> on a current token that is not an identifier (or at the end of
  the tokens) fails with the error the parser builds from
  "Filter name must be an identifier." and no token, that is, no specific source
  location; on an identifier that names no registered filter it fails with the error
  built from "Filter '...' does not exist." and the identifier token, its source
  location; and the function of a node it returns is the entry of the registry the
  parse ran against: the lookup happens at parse time.
\<close>

theorem parseFilter_name_errors:
  "((\<forall>t. Current p = Some t \<longrightarrow> Typ t \<noteq> TokenIdentifier) \<longrightarrow>
      parseFilter perror pvl filters p
        = (Inl (perror p ''Filter name must be an identifier.'' None), p))
 \<and> (\<forall>t. Current p = Some t \<and> Typ t = TokenIdentifier \<and> \<not> FilterExists filters (Val t) \<longrightarrow>
      parseFilter perror pvl filters p
        = (Inl (perror (p\<lparr>idx := idx p + 1\<rparr>)
                  (''Filter '' @ [CHR 0x27] @ Val t @ [CHR 0x27] @ '' does not exist.'') (Some t)),
           p\<lparr>idx := idx p + 1\<rparr>))
 \<and> (\<forall>fc p'. parseFilter perror pvl filters p = (Inr fc, p') \<longrightarrow>
      Current p = Some (token fc) \<and> name fc = Val (token fc)
    \<and> filters (name fc) = Some (filterFunc fc))"
proof (intro conjI allI impI)
  assume "\<forall>t. Current p = Some t \<longrightarrow> Typ t \<noteq> TokenIdentifier"
  then have "PeekType p TokenIdentifier = None"
    by (simp add: PeekType_def split: option.splits)
  then show "parseFilter perror pvl filters p
        = (Inl (perror p ''Filter name must be an identifier.'' None), p)"
    by (simp add: parseFilter_def MatchType_def)
next
  fix t
  assume "Current p = Some t \<and> Typ t = TokenIdentifier \<and> \<not> FilterExists filters (Val t)"
  then have "PeekType p TokenIdentifier = Some t" and "filters (Val t) = None"
    by (simp_all add: PeekType_def FilterExists_iff)
  then show "parseFilter perror pvl filters p
        = (Inl (perror (p\<lparr>idx := idx p + 1\<rparr>)
                  (''Filter '' @ [CHR 0x27] @ Val t @ [CHR 0x27] @ '' does not exist.'') (Some t)),
           p\<lparr>idx := idx p + 1\<rparr>)"
    by (simp add: parseFilter_def MatchType_def)
next
  fix fc p'
  assume a: "parseFilter perror pvl filters p = (Inr fc, p')"
  from parseFilter_Inr [OF a] show "Current p = Some (token fc)" by simp
  from parseFilter_Inr [OF a] show "name fc = Val (token fc)" by simp
  from parseFilter_Inr [OF a] show "filters (name fc) = Some (filterFunc fc)" by simp
qed

theorem parseFilter_name_errors_witness:
  "parseFilter perror0 parseVariable [''double'' \<mapsto> double] \<lparr>tokens = [symbol ''|'' 1], idx = 0\<rparr>
     = (Inl \<lparr>Sender = ''parser'', OrigError = Some ''Filter name must be an identifier.'',
              Location = None\<rparr>,
        \<lparr>tokens = [symbol ''|'' 1], idx = 0\<rparr>)
   \<and> parseFilter perror0 parseVariable [''double'' \<mapsto> double] \<lparr>tokens = [], idx = 0\<rparr>
     = (Inl \<lparr>Sender = ''parser'', OrigError = Some ''Filter name must be an identifier.'',
              Location = None\<rparr>,
        \<lparr>tokens = [], idx = 0\<rparr>)
   \<and> parseFilter perror0 parseVariable [''double'' \<mapsto> double] \<lparr>tokens = [ident ''bogus'' 4], idx = 0\<rparr>
     = (Inl \<lparr>Sender = ''parser'', OrigError = Some ''Filter 'bogus' does not exist.'',
              Location = Some (''page.tpl'', ident ''bogus'' 4)\<rparr>,
        \<lparr>tokens = [ident ''bogus'' 4], idx = 1\<rparr>)
   \<and> parseFilter perror0 parseVariable [''double'' \<mapsto> double] \<lparr>tokens = [ident ''double'' 4], idx = 0\<rparr>
     = (Inr \<lparr>token = ident ''double'' 4, name = ''double'', parameter = None, filterFunc = double\<rparr>,
        \<lparr>tokens = [ident ''double'' 4], idx = 1\<rparr>)
   \<and> [''double'' \<mapsto> double] ''double'' = Some double"
proof -
  let ?reg = "[''double'' \<mapsto> double]"
  have c1: "\<forall>t. Current \<lparr>tokens = [symbol ''|'' 1], idx = 0\<rparr> = Some t \<longrightarrow> Typ t \<noteq> TokenIdentifier"
    by (simp add: Current_def symbol_def)
  have c2: "\<forall>t. Current \<lparr>tokens = [], idx = 0\<rparr> = Some t \<longrightarrow> Typ t \<noteq> TokenIdentifier"
    by (simp add: Current_def)
  have c3: "Current \<lparr>tokens = [ident ''bogus'' 4], idx = 0\<rparr> = Some (ident ''bogus'' 4)
          \<and> Typ (ident ''bogus'' 4) = TokenIdentifier
          \<and> \<not> FilterExists ?reg (Val (ident ''bogus'' 4))"
    by (simp add: Current_def ident_def FilterExists_def)
  have c4: "parseFilter perror0 parseVariable ?reg \<lparr>tokens = [ident ''double'' 4], idx = 0\<rparr>
     = (Inr \<lparr>token = ident ''double'' 4, name = ''double'', parameter = None, filterFunc = double\<rparr>,
        \<lparr>tokens = [ident ''double'' 4], idx = 1\<rparr>)"
    by (simp add: parseFilter_def MatchType_def PeekType_def Match_def Peek_def Current_def ident_def)
  have w1: "parseFilter perror0 parseVariable ?reg \<lparr>tokens = [symbol ''|'' 1], idx = 0\<rparr>
     = (Inl (perror0 \<lparr>tokens = [symbol ''|'' 1], idx = 0\<rparr> ''Filter name must be an identifier.'' None),
        \<lparr>tokens = [symbol ''|'' 1], idx = 0\<rparr>)"
    using parseFilter_name_errors [of "\<lparr>tokens = [symbol ''|'' 1], idx = 0\<rparr>" perror0 parseVariable ?reg] c1
    by blast
  have w2: "parseFilter perror0 parseVariable ?reg \<lparr>tokens = [], idx = 0\<rparr>
     = (Inl (perror0 \<lparr>tokens = [], idx = 0\<rparr> ''Filter name must be an identifier.'' None),
        \<lparr>tokens = [], idx = 0\<rparr>)"
    using parseFilter_name_errors [of "\<lparr>tokens = [], idx = 0\<rparr>" perror0 parseVariable ?reg] c2
    by blast
  have w3: "parseFilter perror0 parseVariable ?reg \<lparr>tokens = [ident ''bogus'' 4], idx = 0\<rparr>
     = (Inl (perror0 (\<lparr>tokens = [ident ''bogus'' 4], idx = 0\<rparr>\<lparr>idx := idx \<lparr>tokens = [ident ''bogus'' 4], idx = 0\<rparr> + 1\<rparr>)
               (''Filter '' @ [CHR 0x27] @ Val (ident ''bogus'' 4) @ [CHR 0x27] @ '' does not exist.'')
               (Some (ident ''bogus'' 4))),
        \<lparr>tokens = [ident ''bogus'' 4], idx = 0\<rparr>\<lparr>idx := idx \<lparr>tokens = [ident ''bogus'' 4], idx = 0\<rparr> + 1\<rparr>)"
    using parseFilter_name_errors [of "\<lparr>tokens = [ident ''bogus'' 4], idx = 0\<rparr>" perror0 parseVariable ?reg] c3
    by blast
  have w4: "?reg (name \<lparr>token = ident ''double'' 4, name = ''double'', parameter = None, filterFunc = double\<rparr>)
              = Some (filterFunc \<lparr>token = ident ''double'' 4, name = ''double'', parameter = None, filterFunc = double\<rparr>)"
    using parseFilter_name_errors [of "\<lparr>tokens = [ident ''double'' 4], idx = 0\<rparr>" perror0 parseVariable ?reg] c4
    by blast
  have v3: "Val (ident ''bogus'' 4) = ''bogus''"
    by (simp add: ident_def)
  show ?thesis
    using w1 w2 w3 w4 c4 by (simp add: perror0_def v3)
qed

text \<open>
  C8. After an identifier of a registered filter and the separator \<open>'':''\<close>: when the
  token that would start the argument is the terminator \<open>''}}''\<close>, \<open>parseFilter\<close>
  fails with the error built from "Filter parameter required after ':'." (MissingArgument);
  otherwise it runs the argument parser, fails with its error when that fails, and
  else stores the evaluator it returns on the node, unevaluated: the parser has no
  render context, and \<open>Execute\<close> applies the evaluator to the context of each render.
\<close>

theorem parseFilter_argument:
  assumes name_tok: "Current p = Some t" "Typ t = TokenIdentifier"
    and reg: "filters (Val t) = Some fn"
    and colon: "Current (p\<lparr>idx := idx p + 1\<rparr>) = Some c" "Typ c = TokenSymbol" "Val c = '':''"
  shows "((\<exists>z. Current (p\<lparr>idx := idx p + 2\<rparr>) = Some z \<and> Typ z = TokenSymbol \<and> Val z = ''}}'') \<longrightarrow>
           parseFilter perror pvl filters p
             = (Inl (perror (p\<lparr>idx := idx p + 2\<rparr>) ''Filter parameter required after ':'.'' None),
                p\<lparr>idx := idx p + 2\<rparr>))
       \<and> (\<not> (\<exists>z. Current (p\<lparr>idx := idx p + 2\<rparr>) = Some z \<and> Typ z = TokenSymbol \<and> Val z = ''}}'') \<longrightarrow>
           parseFilter perror pvl filters p
             = (case pvl filters (p\<lparr>idx := idx p + 2\<rparr>) of
                  ((v, Some err), p3) \<Rightarrow> (Inl err, p3)
                | ((v, None), p3) \<Rightarrow>
                    (Inr \<lparr>token = t, name = Val t, parameter = v, filterFunc = fn\<rparr>, p3)))"
proof -
  let ?p1 = "p\<lparr>idx := idx p + 1\<rparr>"
  let ?p2 = "p\<lparr>idx := idx p + 2\<rparr>"
  have m1: "MatchType p TokenIdentifier = (Some t, ?p1)"
    using name_tok by (simp add: MatchType_def PeekType_def)
  have m2: "Match ?p1 TokenSymbol '':'' = (Some c, ?p2)"
    using colon by (simp add: Match_def Peek_def)
  have pk: "Peek ?p2 TokenSymbol ''}}'' \<noteq> None
              \<longleftrightarrow> (\<exists>z. Current ?p2 = Some z \<and> Typ z = TokenSymbol \<and> Val z = ''}}'')"
    by (auto simp: Peek_def split: option.splits)
  have step: "parseFilter perror pvl filters p =
      (case Peek ?p2 TokenSymbol ''}}'' of
         Some z \<Rightarrow> (Inl (perror ?p2 ''Filter parameter required after ':'.'' None), ?p2)
       | None \<Rightarrow>
           (case pvl filters ?p2 of
              ((v, Some err), p3) \<Rightarrow> (Inl err, p3)
            | ((v, None), p3) \<Rightarrow>
                (Inr \<lparr>token = t, name = Val t, parameter = v, filterFunc = fn\<rparr>, p3)))"
    using m1 m2 reg
    by (simp add: parseFilter_def Let_def split: option.splits prod.splits)
  show ?thesis
  proof (cases "Peek ?p2 TokenSymbol ''}}''")
    case None
    with pk have "\<not> (\<exists>z. Current ?p2 = Some z \<and> Typ z = TokenSymbol \<and> Val z = ''}}'')"
      by simp
    moreover from step None
    have "parseFilter perror pvl filters p
             = (case pvl filters ?p2 of
                  ((v, Some err), p3) \<Rightarrow> (Inl err, p3)
                | ((v, None), p3) \<Rightarrow>
                    (Inr \<lparr>token = t, name = Val t, parameter = v, filterFunc = fn\<rparr>, p3))"
      by simp
    ultimately show ?thesis by blast
  next
    case (Some z)
    with pk have "\<exists>z. Current ?p2 = Some z \<and> Typ z = TokenSymbol \<and> Val z = ''}}''"
      by simp
    moreover from step Some
    have "parseFilter perror pvl filters p
             = (Inl (perror ?p2 ''Filter parameter required after ':'.'' None), ?p2)"
      by simp
    ultimately show ?thesis by blast
  qed
qed

theorem parseFilter_argument_witness:
  "parseFilter perror0 parseVariable [''add'' \<mapsto> add]
      \<lparr>tokens = [ident ''add'' 3, symbol '':'' 6, symbol ''}}'' 8], idx = 0\<rparr>
     = (Inl \<lparr>Sender = ''parser'', OrigError = Some ''Filter parameter required after ':'.'',
              Location = None\<rparr>,
        \<lparr>tokens = [ident ''add'' 3, symbol '':'' 6, symbol ''}}'' 8], idx = 2\<rparr>)
   \<and> map_sum Sender name
        (fst (parseFilter perror0 parseVariable [''add'' \<mapsto> add]
               \<lparr>tokens = [ident ''add'' 3, symbol '':'' 6, ident ''n'' 7, symbol ''}}'' 9], idx = 0\<rparr>))
       = Inr ''add''
   \<and> snd (parseFilter perror0 parseVariable [''add'' \<mapsto> add]
               \<lparr>tokens = [ident ''add'' 3, symbol '':'' 6, ident ''n'' 7, symbol ''}}'' 9], idx = 0\<rparr>)
       = \<lparr>tokens = [ident ''add'' 3, symbol '':'' 6, ident ''n'' 7, symbol ''}}'' 9], idx = 3\<rparr>
   \<and> (case fst (parseFilter perror0 parseVariable [''add'' \<mapsto> add]
               \<lparr>tokens = [ident ''add'' 3, symbol '':'' 6, ident ''n'' 7, symbol ''}}'' 9], idx = 0\<rparr>) of
         Inl e \<Rightarrow> []
       | Inr fc \<Rightarrow>
           [Execute fc (Some (AsValue (Some 3))) \<lparr>template = ''page.tpl'', Public = [''n'' \<mapsto> 4]\<rparr>,
            Execute fc (Some (AsValue (Some 3))) \<lparr>template = ''page.tpl'', Public = [''n'' \<mapsto> 10]\<rparr>])
       = [(Some (AsValue (Some 7)), None), (Some (AsValue (Some 13)), None)]
   \<and> parseFilter perror0 parseVariable [''add'' \<mapsto> add]
      \<lparr>tokens = [ident ''add'' 3, symbol '':'' 6, symbol ''|'' 8], idx = 0\<rparr>
     = (Inl \<lparr>Sender = ''parser'', OrigError = Some ''Expected an identifier.'',
              Location = Some (''page.tpl'', symbol ''|'' 8)\<rparr>,
        \<lparr>tokens = [ident ''add'' 3, symbol '':'' 6, symbol ''|'' 8], idx = 2\<rparr>)"
proof -
  let ?reg = "[''add'' \<mapsto> add]"
  let ?pa = "\<lparr>tokens = [ident ''add'' 3, symbol '':'' 6, symbol ''}}'' 8], idx = 0\<rparr>"
  let ?pb = "\<lparr>tokens = [ident ''add'' 3, symbol '':'' 6, ident ''n'' 7, symbol ''}}'' 9], idx = 0\<rparr>"
  let ?pc = "\<lparr>tokens = [ident ''add'' 3, symbol '':'' 6, symbol ''|'' 8], idx = 0\<rparr>"
  have r: "?reg (Val (ident ''add'' 3)) = Some add"
    by (simp add: ident_def)
  have ty: "Typ (ident ''add'' 3) = TokenIdentifier" "Typ (symbol '':'' 6) = TokenSymbol"
    "Val (symbol '':'' 6) = '':''"
    by (simp_all add: ident_def symbol_def)
  have a: "Current ?pa = Some (ident ''add'' 3)" "Current (?pa\<lparr>idx := idx ?pa + 1\<rparr>) = Some (symbol '':'' 6)"
    by (simp_all add: Current_def)
  have b: "Current ?pb = Some (ident ''add'' 3)" "Current (?pb\<lparr>idx := idx ?pb + 1\<rparr>) = Some (symbol '':'' 6)"
    by (simp_all add: Current_def)
  have c: "Current ?pc = Some (ident ''add'' 3)" "Current (?pc\<lparr>idx := idx ?pc + 1\<rparr>) = Some (symbol '':'' 6)"
    by (simp_all add: Current_def)
  note wa = parseFilter_argument [where p = "?pa" and t = "ident ''add'' 3" and filters = "?reg"
      and fn = add and c = "symbol '':'' 6" and perror = perror0 and pvl = parseVariable,
      OF a(1) ty(1) r a(2) ty(2) ty(3)]
  note wb = parseFilter_argument [where p = "?pb" and t = "ident ''add'' 3" and filters = "?reg"
      and fn = add and c = "symbol '':'' 6" and perror = perror0 and pvl = parseVariable,
      OF b(1) ty(1) r b(2) ty(2) ty(3)]
  note wc = parseFilter_argument [where p = "?pc" and t = "ident ''add'' 3" and filters = "?reg"
      and fn = add and c = "symbol '':'' 6" and perror = perror0 and pvl = parseVariable,
      OF c(1) ty(1) r c(2) ty(2) ty(3)]
  have ra: "parseFilter perror0 parseVariable ?reg ?pa
     = (Inl \<lparr>Sender = ''parser'', OrigError = Some ''Filter parameter required after ':'.'',
              Location = None\<rparr>,
        \<lparr>tokens = [ident ''add'' 3, symbol '':'' 6, symbol ''}}'' 8], idx = 2\<rparr>)"
    using wa by (simp add: Current_def symbol_def perror0_def)
  have rb: "parseFilter perror0 parseVariable ?reg ?pb
     = (Inr \<lparr>token = ident ''add'' 3, name = ''add'',
             parameter = Some (\<lambda>ctx. case Public ctx ''n'' of
                           None \<Rightarrow> (None, Some \<lparr>Sender = ''variable'', OrigError = Some ''unknown variable'',
                                                Location = None\<rparr>)
                         | Some x \<Rightarrow> (Some (AsValue (Some x)), None)),
             filterFunc = add\<rparr>,
        \<lparr>tokens = [ident ''add'' 3, symbol '':'' 6, ident ''n'' 7, symbol ''}}'' 9], idx = 3\<rparr>)"
    using wb by (simp add: Current_def symbol_def ident_def parseVariable_def PeekType_def)
  have rc: "parseFilter perror0 parseVariable ?reg ?pc
     = (Inl \<lparr>Sender = ''parser'', OrigError = Some ''Expected an identifier.'',
              Location = Some (''page.tpl'', symbol ''|'' 8)\<rparr>,
        \<lparr>tokens = [ident ''add'' 3, symbol '':'' 6, symbol ''|'' 8], idx = 2\<rparr>)"
    using wc by (simp add: Current_def symbol_def ident_def parseVariable_def PeekType_def perror0_def)
  show ?thesis
    unfolding ra rb rc by (simp add: Execute_def add_def)
qed

text \<open>
  C4. Early binding. A node returned by \<open>parseFilter\<close> stores the function that the
  registry held for its name at parse time, and \<open>Execute\<close> on the node invokes that
  function: it takes no registry. An \<open>OverrideFilter\<close> or \<open>ReplaceFilter\<close> of the
  name after the parse succeeds and changes the registry, not the node; a parse of the
  same tokens against the new registry returns a node with the new function.
\<close>

theorem parseFilter_early_binding:
  assumes parsed: "parseFilter perror pvl filters p = (Inr fc, p')"
    and later: "OverrideFilter (name fc) g filters = (e, filters')
              \<or> ReplaceFilter (name fc) g filters = (e, filters')"
  shows "filters (name fc) = Some (filterFunc fc)
       \<and> Execute fc v ctx =
           (case (case parameter fc of
                    Some ev \<Rightarrow> ev ctx
                  | None \<Rightarrow> (Some (AsValue None), None)) of
              (param, Some err) \<Rightarrow> (None, Some err)
            | (param, None) \<Rightarrow>
                (case the (filters (name fc)) v param (Public ctx) of
                   (filteredValue, Some err) \<Rightarrow>
                     (None, Some (updateFromTokenIfNeeded err (template ctx) (token fc)))
                 | (filteredValue, None) \<Rightarrow> (filteredValue, None)))
       \<and> e = None \<and> filters' (name fc) = Some g
       \<and> (\<forall>fc' p''. parseFilter perror pvl filters' p = (Inr fc', p'') \<longrightarrow>
             token fc' = token fc \<and> name fc' = name fc \<and> filterFunc fc' = g)"
proof -
  from parseFilter_Inr [OF parsed]
  have cur: "Current p = Some (token fc)" and nm: "name fc = Val (token fc)"
    and reg: "filters (name fc) = Some (filterFunc fc)"
    by simp_all
  from reg have ex: "FilterExists filters (name fc)"
    by (simp add: FilterExists_iff)
  from later ex have upd: "e = None" "filters' = filters(name fc \<mapsto> g)"
    by (auto simp: OverrideFilter_def ReplaceFilter_def)
  have again: "token fc' = token fc \<and> name fc' = name fc \<and> filterFunc fc' = g"
    if "parseFilter perror pvl filters' p = (Inr fc', p'')" for fc' p''
  proof -
    from parseFilter_Inr [OF that] cur
    have "token fc' = token fc" "name fc' = Val (token fc')"
      "filters' (Val (token fc')) = Some (filterFunc fc')"
      by simp_all
    with upd nm show ?thesis by simp
  qed
  have exec: "Execute fc v ctx =
           (case (case parameter fc of
                    Some ev \<Rightarrow> ev ctx
                  | None \<Rightarrow> (Some (AsValue None), None)) of
              (param, Some err) \<Rightarrow> (None, Some err)
            | (param, None) \<Rightarrow>
                (case the (filters (name fc)) v param (Public ctx) of
                   (filteredValue, Some err) \<Rightarrow>
                     (None, Some (updateFromTokenIfNeeded err (template ctx) (token fc)))
                 | (filteredValue, None) \<Rightarrow> (filteredValue, None)))"
    unfolding Execute_def reg option.sel ..
  have new: "filters' (name fc) = Some g"
    using upd by simp
  from reg exec upd(1) new again show ?thesis
    by blast
qed

theorem parseFilter_early_binding_witness:
  "parseFilter perror0 parseVariable [''f'' \<mapsto> double] \<lparr>tokens = [ident ''f'' 1], idx = 0\<rparr>
     = (Inr \<lparr>token = ident ''f'' 1, name = ''f'', parameter = None, filterFunc = double\<rparr>,
        \<lparr>tokens = [ident ''f'' 1], idx = 1\<rparr>)
   \<and> OverrideFilter ''f'' neg [''f'' \<mapsto> double] = (None, [''f'' \<mapsto> neg])
   \<and> Execute \<lparr>token = ident ''f'' 1, name = ''f'', parameter = None, filterFunc = double\<rparr>
        (Some (AsValue (Some 3))) \<lparr>template = ''page.tpl'', Public = Map.empty\<rparr>
       = (Some (AsValue (Some 6)), None)
   \<and> parseFilter perror0 parseVariable [''f'' \<mapsto> neg] \<lparr>tokens = [ident ''f'' 1], idx = 0\<rparr>
     = (Inr \<lparr>token = ident ''f'' 1, name = ''f'', parameter = None, filterFunc = neg\<rparr>,
        \<lparr>tokens = [ident ''f'' 1], idx = 1\<rparr>)
   \<and> Execute \<lparr>token = ident ''f'' 1, name = ''f'', parameter = None, filterFunc = neg\<rparr>
        (Some (AsValue (Some 3))) \<lparr>template = ''page.tpl'', Public = Map.empty\<rparr>
       = (Some (AsValue (Some (- 3))), None)"
proof -
  let ?p = "\<lparr>tokens = [ident ''f'' 1], idx = 0\<rparr>"
  let ?fc = "\<lparr>token = ident ''f'' 1, name = ''f'', parameter = None, filterFunc = double\<rparr>"
  let ?fc' = "\<lparr>token = ident ''f'' 1, name = ''f'', parameter = None, filterFunc = neg\<rparr>"
  let ?ctx = "\<lparr>template = ''page.tpl'', Public = Map.empty\<rparr> :: (int, string) ExecutionContext"
  have h1: "parseFilter perror0 parseVariable [''f'' \<mapsto> double] ?p
              = (Inr ?fc, \<lparr>tokens = [ident ''f'' 1], idx = 1\<rparr>)"
    by (simp add: parseFilter_def MatchType_def PeekType_def Match_def Peek_def Current_def ident_def)
  have h2: "OverrideFilter (name ?fc) neg [''f'' \<mapsto> double] = (None, [''f'' \<mapsto> neg])
          \<or> ReplaceFilter (name ?fc) neg [''f'' \<mapsto> double] = (None, [''f'' \<mapsto> neg])"
    by (simp add: OverrideFilter_def)
  have h3: "parseFilter perror0 parseVariable [''f'' \<mapsto> neg] ?p
              = (Inr ?fc', \<lparr>tokens = [ident ''f'' 1], idx = 1\<rparr>)"
    by (simp add: parseFilter_def MatchType_def PeekType_def Match_def Peek_def Current_def ident_def)
  have e1: "Execute ?fc (Some (AsValue (Some 3))) ?ctx = (Some (AsValue (Some 6)), None)"
    using parseFilter_early_binding [OF h1 h2, of "Some (AsValue (Some 3))" ?ctx]
    by (simp add: double_def)
  have e2: "Execute ?fc' (Some (AsValue (Some 3))) ?ctx = (Some (AsValue (Some (- 3))), None)"
    by (simp add: Execute_def neg_def)
  show ?thesis
    using h1 h3 e1 e2 by (simp add: OverrideFilter_def)
qed

section \<open>Properties of the execution of a node\<close>

text \<open>
  C9. In \<open>Execute\<close>, once the parameter is there (the sentinel, or the value of the
  parameter expression): when the filter function returns an error, no value is
  returned and the error is propagated after \<open>updateFromTokenIfNeeded\<close>, so an error
  without a source location gets the node's token and the template of the context,
  and an error that has one is unchanged; when the function returns no error, the
  value it returns is the result.
\<close>

theorem Execute_filter_result:
  assumes "(case parameter fc of
              Some ev \<Rightarrow> ev ctx
            | None \<Rightarrow> (Some (AsValue None), None)) = (param, None)"
  shows "(\<forall>out err. filterFunc fc v param (Public ctx) = (out, Some err) \<longrightarrow>
            Execute fc v ctx = (None, Some (updateFromTokenIfNeeded err (template ctx) (token fc)))
          \<and> (Location err = None \<longrightarrow>
                Execute fc v ctx = (None, Some (err\<lparr>Location := Some (template ctx, token fc)\<rparr>)))
          \<and> (Location err \<noteq> None \<longrightarrow> Execute fc v ctx = (None, Some err)))
       \<and> (\<forall>out. filterFunc fc v param (Public ctx) = (out, None) \<longrightarrow>
            Execute fc v ctx = (out, None))"
  using assms
  by (auto simp: Execute_def updateFromTokenIfNeeded_def split: option.splits)

theorem Execute_filter_result_witness:
  "Execute \<lparr>token = ident ''double'' 4, name = ''double'', parameter = None, filterFunc = double\<rparr>
     None \<lparr>template = ''page.tpl'', Public = Map.empty\<rparr>
     = (None, Some \<lparr>Sender = ''filter:double'', OrigError = Some ''not a number'',
                     Location = Some (''page.tpl'', ident ''double'' 4)\<rparr>)
   \<and> Execute \<lparr>token = ident ''double'' 4, name = ''double'', parameter = None, filterFunc = double\<rparr>
     (Some (AsValue (Some 3))) \<lparr>template = ''page.tpl'', Public = Map.empty\<rparr>
     = (Some (AsValue (Some 6)), None)"
proof -
  let ?fc = "\<lparr>token = ident ''double'' 4, name = ''double'', parameter = None, filterFunc = double\<rparr>"
  let ?ctx = "\<lparr>template = ''page.tpl'', Public = Map.empty\<rparr> :: (int, string) ExecutionContext"
  let ?err = "\<lparr>Sender = ''filter:double'', OrigError = Some ''not a number'',
                Location = None\<rparr> :: string Error"
  have h: "(case parameter ?fc of
              Some ev \<Rightarrow> ev ?ctx
            | None \<Rightarrow> (Some (AsValue None), None)) = (Some (AsValue None), None)"
    by simp
  have f1: "filterFunc ?fc None (Some (AsValue None)) (Public ?ctx) = (None, Some ?err)"
    by (simp add: double_def)
  have f2: "filterFunc ?fc (Some (AsValue (Some 3))) (Some (AsValue None)) (Public ?ctx)
              = (Some (AsValue (Some 6)), None)"
    by (simp add: double_def)
  have l: "Location ?err = None"
    by simp
  from Execute_filter_result [OF h, of None] f1 l
  have "Execute ?fc None ?ctx = (None, Some (?err\<lparr>Location := Some (template ?ctx, token ?fc)\<rparr>))"
    by blast
  moreover from Execute_filter_result [OF h, of "Some (AsValue (Some 3))"] f2
  have "Execute ?fc (Some (AsValue (Some 3))) ?ctx = (Some (AsValue (Some 6)), None)"
    by blast
  ultimately show ?thesis by simp
qed

text \<open>
  C10. In \<open>Execute\<close>, when the node has a parameter expression and its evaluation
  returns an error, the result is a nil value and that error as it is, with no token
  or template attached; the filter function is not called: the result is the same
  whatever function the node holds.
\<close>

theorem Execute_parameter_error:
  assumes "parameter fc = Some ev" and "ev ctx = (pv, Some err)"
  shows "Execute fc v ctx = (None, Some err)
       \<and> (\<forall>g. Execute (fc\<lparr>filterFunc := g\<rparr>) v ctx = (None, Some err))"
  using assms by (simp add: Execute_def)

theorem Execute_parameter_error_witness:
  "Execute \<lparr>token = ident ''add'' 3, name = ''add'',
            parameter = Some (\<lambda>ctx. case Public ctx ''n'' of
                           None \<Rightarrow> (None, Some \<lparr>Sender = ''variable'', OrigError = Some ''unknown variable'',
                                                Location = None\<rparr>)
                         | Some x \<Rightarrow> (Some (AsValue (Some x)), None)),
            filterFunc = add\<rparr>
     (Some (AsValue (Some 3))) \<lparr>template = ''page.tpl'', Public = Map.empty\<rparr>
     = (None, Some \<lparr>Sender = ''variable'', OrigError = Some ''unknown variable'', Location = None\<rparr>)"
proof -
  let ?ev = "\<lambda>ctx :: (int, string) ExecutionContext. case Public ctx ''n'' of
                           None \<Rightarrow> (None :: int Value option, Some \<lparr>Sender = ''variable'', OrigError = Some ''unknown variable'',
                                                Location = None :: (string \<times> Token) option\<rparr>)
                         | Some x \<Rightarrow> (Some (AsValue (Some x)), None)"
  let ?fc = "\<lparr>token = ident ''add'' 3, name = ''add'', parameter = Some ?ev, filterFunc = add\<rparr>"
  let ?ctx = "\<lparr>template = ''page.tpl'', Public = Map.empty\<rparr> :: (int, string) ExecutionContext"
  have h1: "parameter ?fc = Some ?ev"
    by simp
  have h2: "?ev ?ctx = (None, Some \<lparr>Sender = ''variable'', OrigError = Some ''unknown variable'', Location = None\<rparr>)"
    by simp
  from Execute_parameter_error [OF h1 h2, of "Some (AsValue (Some 3))"]
  show ?thesis by simp
qed

end
